theory Spec2Isabelle
  imports Main "HOL-Library.Word"
begin

section \<open>Data model\<close>

text \<open>
  The server is an Express application over two Mongoose collections. \<^verbatim>\<open>src/index.js\<close>
  holds two revisions of it: the earlier one gates the role toggle on \<^verbatim>\<open>isAdmin\<close> and
  answers a registration with a message (called variant 1 below), the later one gates it
  on \<^verbatim>\<open>isOwner\<close>, answers a registration with a token and adds the profile, deletion
  and title routes (variant 2). Both are embedded, route by route, and so is the admin
  middleware. The older revisions beside that middleware (no accounts at first, then
  registration and login as in variant 1) have no admin routes and are not embedded.

  A collection is the list of its documents in insertion order, and an \<^verbatim>\<open>ObjectId\<close>
  is a natural number. Reading and writing a collection does not fail here, so the
  \<^verbatim>\<open>catch\<close> of a handler is reached by what the libraries throw and by a path parameter
  that is no \<^verbatim>\<open>ObjectId\<close>, not by a lost connection. Strings that the handlers only
  store and compare are \<^typ>\<open>string\<close>; a string whose length and white space a handler
  inspects is the list of its UTF-16 code units, which is what \<^verbatim>\<open>.length\<close> and
  \<^verbatim>\<open>.trim()\<close> of JavaScript work on.
\<close>

type_synonym object_id = nat

type_synonym js_string = "16 word list"

text \<open>
  Modelled from the spec: \<^verbatim>\<open>models/User.js\<close> is not among the sources. The fields are
  the ones the handlers read and write (\<^verbatim>\<open>_id\<close>, \<^verbatim>\<open>email\<close>, \<^verbatim>\<open>password\<close>, \<^verbatim>\<open>isAdmin\<close>,
  \<^verbatim>\<open>isOwner\<close>, \<^verbatim>\<open>name\<close>, \<^verbatim>\<open>bio\<close>), typed as the Account of the spec's data model:
  both role flags are booleans, the profile fields are optional. A query returns a
  document with every stored field unless it deselects one (login reads
  \<^verbatim>\<open>user.password\<close> off a plain \<^verbatim>\<open>findOne\<close>), and \<^verbatim>\<open>res.json\<close> is taken to send the
  fields of the document it is given: the schema is taken to hide none.
\<close>

record user =
  oid :: object_id
  email :: string
  password :: string
  isAdmin :: bool
  isOwner :: bool
  name :: "string option"
  bio :: "string option"

text \<open>The Transcript schema (\<^verbatim>\<open>text\<close>, \<^verbatim>\<open>format\<close>, \<^verbatim>\<open>result\<close>, \<^verbatim>\<open>userId\<close>, timestamps).\<close>

record transcript =
  tid :: object_id
  text_of :: js_string
  format :: js_string
  result :: js_string
  userId :: object_id
  createdAt :: nat

record db =
  users :: "user list"
  transcripts :: "transcript list"
  next_id :: object_id

text \<open>The payload of a session token. Variant 1 signs no \<^verbatim>\<open>isOwner\<close> claim.\<close>

record claims =
  c_userId :: object_id
  c_isAdmin :: bool
  c_isOwner :: "bool option"

text \<open>
  \<^verbatim>\<open>jwt.sign(payload, secret, {expiresIn})\<close>: the token is kept symbolic, a payload
  and its lifetime; \<^verbatim>\<open>jwt.decode\<close> reads the payload back. The signing secret is taken
  as configured.
\<close>

datatype token = Jwt claims string

fun jwt_sign :: "claims \<Rightarrow> string \<Rightarrow> token" where
  "jwt_sign payload expiresIn = Jwt payload expiresIn"

fun jwt_decode :: "token \<Rightarrow> claims" where
  "jwt_decode (Jwt payload expiresIn) = payload"

text \<open>
  The libraries behind the handlers, as parameters. A result \<open>Inl msg\<close> is a rejected
  promise whose error has the message \<open>msg\<close>; the handler's \<^verbatim>\<open>catch\<close> receives it.
\<close>

record env =
  bcrypt_hash :: "string \<Rightarrow> string + string"
  bcrypt_compare :: "string \<Rightarrow> string \<Rightarrow> string + bool"
  jwt_verify :: "token \<Rightarrow> claims option"
  openai_chat :: "js_string \<Rightarrow> js_string \<Rightarrow> string + js_string"

text \<open>
  The document that \<^verbatim>\<open>select('-password')\<close> returns: every field of the account but
  the password.
\<close>

record user_minus_password =
  m_id :: object_id
  m_email :: string
  m_isAdmin :: bool
  m_isOwner :: bool
  m_name :: "string option"
  m_bio :: "string option"

definition select_minus_password :: "user \<Rightarrow> user_minus_password" where
  "select_minus_password u = \<lparr>m_id = oid u, m_email = email u, m_isAdmin = isAdmin u,
     m_isOwner = isOwner u, m_name = name u, m_bio = bio u\<rparr>"

text \<open>
  The JSON bodies the handlers send, one constructor per shape. The toggle sends the
  document it has saved, \<^verbatim>\<open>{ message, user }\<close>; the listing and the profile send
  documents without the password.
\<close>

datatype body =
    Message string
  | MessageError string string
  | ErrorBody string
  | TokenBody token
  | ChaptersBody js_string
  | TitlesBody js_string
  | UsersBody "user_minus_password list"
  | UserBody user_minus_password
  | MessageUser string user
  | TranscriptsBody "transcript list"
  | HistoryBody "(object_id \<times> js_string \<times> js_string \<times> js_string \<times> nat) list"
  | Unauthenticated
  | NoRoute

record response =
  status :: nat
  body :: body

definition respond :: "nat \<Rightarrow> body \<Rightarrow> response" where
  "respond code b = \<lparr>status = code, body = b\<rparr>"

section \<open>The credential store\<close>

definition findOne_email :: "string \<Rightarrow> user list \<Rightarrow> user option" where
  "findOne_email e us = find (\<lambda>u. email u = e) us"

definition findById :: "object_id \<Rightarrow> user list \<Rightarrow> user option" where
  "findById i us = find (\<lambda>u. oid u = i) us"

text \<open>\<^verbatim>\<open>doc.save()\<close>: the stored document with the \<^verbatim>\<open>_id\<close> of \<open>d\<close> becomes \<open>d\<close>.\<close>

fun save_user :: "user \<Rightarrow> user list \<Rightarrow> user list" where
  "save_user d [] = []"
| "save_user d (x # xs) = (if oid x = oid d then d # xs else x # save_user d xs)"

text \<open>
  Modelled from the spec: \<^verbatim>\<open>User.create\<close> runs the schema of \<^verbatim>\<open>models/User.js\<close>, which
  is not among the sources. The new account gets a fresh id and the role defaults
  (neither admin nor owner) and no profile.
\<close>

definition new_user :: "object_id \<Rightarrow> string \<Rightarrow> string \<Rightarrow> user" where
  "new_user i e h = \<lparr>oid = i, email = e, password = h, isAdmin = False, isOwner = False,
     name = None, bio = None\<rparr>"

definition insert_user :: "string \<Rightarrow> string \<Rightarrow> db \<Rightarrow> db" where
  "insert_user e h s =
     s\<lparr>users := users s @ [new_user (next_id s) e h], next_id := Suc (next_id s)\<rparr>"

section \<open>The authorization gate\<close>

text \<open>
  Modelled from the spec: \<^verbatim>\<open>middleware/auth.js\<close> is not among the sources. The
  authentication check takes the bearer token of the request, has the verifier check it,
  and either attaches the claims to the request (\<^verbatim>\<open>req.user\<close>) or answers 401.
\<close>

definition requireAuth :: "env \<Rightarrow> token option \<Rightarrow> response + claims" where
  "requireAuth ev hdr =
     (case hdr of
        None \<Rightarrow> Inl (respond 401 Unauthenticated)
      | Some t \<Rightarrow>
          (case jwt_verify ev t of
             None \<Rightarrow> Inl (respond 401 Unauthenticated)
           | Some c \<Rightarrow> Inr c))"

text \<open>\<^verbatim>\<open>middleware/admin.js\<close>: \<open>None\<close> is the call of \<^verbatim>\<open>next()\<close>.\<close>

definition requireAdmin :: "db \<Rightarrow> claims \<Rightarrow> response option" where
  "requireAdmin s c =
     (case findById (c_userId c) (users s) of
        None \<Rightarrow> Some (respond 403 (Message ''Access denied. Admins only.''))
      | Some u \<Rightarrow>
          (if \<not> isAdmin u then Some (respond 403 (Message ''Access denied. Admins only.''))
           else None))"

text \<open>\<^verbatim>\<open>GET /api/admin/users\<close>, the same in both variants.\<close>

definition admin_users :: "env \<Rightarrow> db \<Rightarrow> token option \<Rightarrow> response" where
  "admin_users ev s hdr =
     (case requireAuth ev hdr of
        Inl r \<Rightarrow> r
      | Inr c \<Rightarrow>
          (case requireAdmin s c of
             Some r \<Rightarrow> r
           | None \<Rightarrow> respond 200 (UsersBody (map select_minus_password (users s)))))"

section \<open>Registration and login\<close>

text \<open>
  \<^verbatim>\<open>POST /api/register\<close>, variant 1: the handler hashes the password itself. The body
  of a registration is taken to carry \<^verbatim>\<open>email\<close> and \<^verbatim>\<open>password\<close> as strings, the body
  of a login its \<^verbatim>\<open>email\<close>.
\<close>

definition register_v1 :: "env \<Rightarrow> db \<Rightarrow> string \<Rightarrow> string \<Rightarrow> response \<times> db" where
  "register_v1 ev s e p =
     (case findOne_email e (users s) of
        Some existing \<Rightarrow> (respond 400 (Message ''User already exists''), s)
      | None \<Rightarrow>
          (case bcrypt_hash ev p of
             Inl m \<Rightarrow> (respond 500 (MessageError ''Register error'' m), s)
           | Inr hashed \<Rightarrow> (respond 201 (Message ''User created''), insert_user e hashed s)))"

text \<open>
  Modelled from the spec: the schema of \<^verbatim>\<open>models/User.js\<close>, to which variant 2 leaves
  the hashing (\<^verbatim>\<open>User.create({email, password})\<close>, "the schema will hash it
  automatically"), is not among the sources. The stored \<^verbatim>\<open>passwordHash\<close> is the output
  of the hashing service, and a failure of the service fails the creation.
\<close>

definition create_hashing :: "env \<Rightarrow> string \<Rightarrow> string \<Rightarrow> db \<Rightarrow> string + db" where
  "create_hashing ev e p s =
     (case bcrypt_hash ev p of
        Inl m \<Rightarrow> Inl m
      | Inr hashed \<Rightarrow> Inr (insert_user e hashed s))"

text \<open>
  Variant 2 creates the account, reads it back by email and signs its id and role
  flags; reading \<^verbatim>\<open>_id\<close> of a missing document would throw into the \<^verbatim>\<open>catch\<close>.
\<close>

definition register_v2 :: "env \<Rightarrow> db \<Rightarrow> string \<Rightarrow> string \<Rightarrow> response \<times> db" where
  "register_v2 ev s e p =
     (case findOne_email e (users s) of
        Some existing \<Rightarrow> (respond 400 (Message ''User already exists''), s)
      | None \<Rightarrow>
          (case create_hashing ev e p s of
             Inl m \<Rightarrow> (respond 500 (MessageError ''Register error'' m), s)
           | Inr s' \<Rightarrow>
               (case findOne_email e (users s') of
                  None \<Rightarrow>
                    (respond 500 (MessageError ''Register error''
                       (''Cannot read properties of null (reading '' @ [CHR 0x27] @ ''_id''
                          @ [CHR 0x27] @ '')'')), s')
                | Some u \<Rightarrow>
                    (respond 201 (TokenBody (jwt_sign
                       \<lparr>c_userId = oid u, c_isAdmin = isAdmin u, c_isOwner = Some (isOwner u)\<rparr>
                       ''7d'')), s'))))"

text \<open>
  \<^verbatim>\<open>bcrypt.compare(password, user.password)\<close> as the login handlers call it. The
  password of the body is \<open>None\<close> when the body has none; \<^verbatim>\<open>bcryptjs\<close> rejects an
  argument that is not a string before it compares anything, and the rejection goes to
  the handler's \<^verbatim>\<open>catch\<close>.
\<close>

definition compare_password :: "env \<Rightarrow> string option \<Rightarrow> string \<Rightarrow> string + bool" where
  "compare_password ev pw h =
     (case pw of
        None \<Rightarrow> Inl ''Illegal arguments: undefined, string''
      | Some p \<Rightarrow> bcrypt_compare ev p h)"

text \<open>\<^verbatim>\<open>POST /api/login\<close>, variant 1: the token carries the id and \<^verbatim>\<open>isAdmin\<close>.\<close>

definition login_v1 :: "env \<Rightarrow> db \<Rightarrow> string \<Rightarrow> string option \<Rightarrow> response" where
  "login_v1 ev s e pw =
     (case findOne_email e (users s) of
        None \<Rightarrow> respond 400 (Message ''Invalid credentials'')
      | Some u \<Rightarrow>
          (case compare_password ev pw (password u) of
             Inl m \<Rightarrow> respond 500 (MessageError ''Login error'' m)
           | Inr match \<Rightarrow>
               (if \<not> match then respond 400 (Message ''Invalid credentials'')
                else respond 200 (TokenBody (jwt_sign
                  \<lparr>c_userId = oid u, c_isAdmin = isAdmin u, c_isOwner = None\<rparr> ''7d'')))))"

text \<open>Variant 2 adds the \<^verbatim>\<open>isOwner\<close> claim.\<close>

definition login_v2 :: "env \<Rightarrow> db \<Rightarrow> string \<Rightarrow> string option \<Rightarrow> response" where
  "login_v2 ev s e pw =
     (case findOne_email e (users s) of
        None \<Rightarrow> respond 400 (Message ''Invalid credentials'')
      | Some u \<Rightarrow>
          (case compare_password ev pw (password u) of
             Inl m \<Rightarrow> respond 500 (MessageError ''Login error'' m)
           | Inr match \<Rightarrow>
               (if \<not> match then respond 400 (Message ''Invalid credentials'')
                else respond 200 (TokenBody (jwt_sign
                  \<lparr>c_userId = oid u, c_isAdmin = isAdmin u, c_isOwner = Some (isOwner u)\<rparr>
                  ''7d'')))))"

section \<open>The role toggle\<close>

text \<open>
  \<^verbatim>\<open>PUT /api/admin/toggle-admin/:userId\<close>. The path parameter is \<open>None\<close> when it does
  not cast to an \<^verbatim>\<open>ObjectId\<close>: \<^verbatim>\<open>findById\<close> then throws into the \<^verbatim>\<open>catch\<close>, after the
  actor check. Variant 1 lets admins through and has no guard on the target.
\<close>

definition toggle_admin_v1 :: "env \<Rightarrow> db \<Rightarrow> token option \<Rightarrow> object_id option \<Rightarrow> response \<times> db" where
  "toggle_admin_v1 ev s hdr target =
     (case requireAuth ev hdr of
        Inl r \<Rightarrow> (r, s)
      | Inr c \<Rightarrow>
          (case findById (c_userId c) (users s) of
             None \<Rightarrow> (respond 403 (ErrorBody ''Forbidden: Admins only''), s)
           | Some requestingUser \<Rightarrow>
               (if \<not> isAdmin requestingUser
                then (respond 403 (ErrorBody ''Forbidden: Admins only''), s)
                else
                  (case target of
                     None \<Rightarrow> (respond 500 (ErrorBody ''Internal server error''), s)
                   | Some t \<Rightarrow>
                       (case findById t (users s) of
                          None \<Rightarrow> (respond 404 (ErrorBody ''User not found''), s)
                        | Some u \<Rightarrow>
                            (let u' = u\<lparr>isAdmin := \<not> isAdmin u\<rparr> in
                             (respond 200 (MessageUser ''User updated'' u'),
                              s\<lparr>users := save_user u' (users s)\<rparr>)))))))"

text \<open>Variant 2 lets owners through and refuses a target that is an owner.\<close>

definition toggle_admin_v2 :: "env \<Rightarrow> db \<Rightarrow> token option \<Rightarrow> object_id option \<Rightarrow> response \<times> db" where
  "toggle_admin_v2 ev s hdr target =
     (case requireAuth ev hdr of
        Inl r \<Rightarrow> (r, s)
      | Inr c \<Rightarrow>
          (case findById (c_userId c) (users s) of
             None \<Rightarrow>
               (respond 403 (ErrorBody ''Forbidden: Only owner can manage admin roles''), s)
           | Some requestingUser \<Rightarrow>
               (if \<not> isOwner requestingUser
                then (respond 403 (ErrorBody ''Forbidden: Only owner can manage admin roles''), s)
                else
                  (case target of
                     None \<Rightarrow> (respond 500 (ErrorBody ''Internal server error''), s)
                   | Some t \<Rightarrow>
                       (case findById t (users s) of
                          None \<Rightarrow> (respond 404 (ErrorBody ''User not found''), s)
                        | Some u \<Rightarrow>
                            (if isOwner u
                             then (respond 403 (ErrorBody ''Cannot change owner privileges''), s)
                             else
                               (let u' = u\<lparr>isAdmin := \<not> isAdmin u\<rparr> in
                                (respond 200 (MessageUser ''User role updated'' u'),
                                 s\<lparr>users := save_user u' (users s)\<rparr>))))))))"

section \<open>Profile\<close>

definition get_profile :: "env \<Rightarrow> db \<Rightarrow> token option \<Rightarrow> response" where
  "get_profile ev s hdr =
     (case requireAuth ev hdr of
        Inl r \<Rightarrow> r
      | Inr c \<Rightarrow>
          (case findById (c_userId c) (users s) of
             None \<Rightarrow> respond 404 (ErrorBody ''User not found'')
           | Some u \<Rightarrow> respond 200 (UserBody (select_minus_password u))))"

text \<open>\<^verbatim>\<open>PUT /api/profile\<close>: a field the body lacks is \<open>None\<close>.\<close>

definition put_profile ::
  "env \<Rightarrow> db \<Rightarrow> token option \<Rightarrow> string option \<Rightarrow> string option \<Rightarrow> response \<times> db" where
  "put_profile ev s hdr nm b =
     (case requireAuth ev hdr of
        Inl r \<Rightarrow> (r, s)
      | Inr c \<Rightarrow>
          (case findById (c_userId c) (users s) of
             None \<Rightarrow> (respond 404 (ErrorBody ''User not found''), s)
           | Some u \<Rightarrow>
               (respond 200 (Message ''Profile updated''),
                s\<lparr>users := save_user (u\<lparr>name := nm, bio := b\<rparr>) (users s)\<rparr>)))"

section \<open>Transcripts and generation\<close>

definition js :: "string \<Rightarrow> js_string" where
  "js cs = map (\<lambda>c. of_nat (of_char c)) cs"

text \<open>
  \<^verbatim>\<open>POST /api/generate-chapters\<close>, the same in both variants: the completion is asked
  for and, when it arrives, stored with the caller's id. \<open>now\<close> is the clock that stamps
  \<^verbatim>\<open>createdAt\<close>. The body is taken to carry both fields as strings.
\<close>

definition generate_chapters ::
  "env \<Rightarrow> db \<Rightarrow> nat \<Rightarrow> token option \<Rightarrow> js_string \<Rightarrow> js_string \<Rightarrow> response \<times> db" where
  "generate_chapters ev s now hdr tr fmt =
     (case requireAuth ev hdr of
        Inl r \<Rightarrow> (r, s)
      | Inr c \<Rightarrow>
          (case openai_chat ev
                  (js ''You are a helpful assistant that generates YouTube chapters in ''
                     @ fmt @ js '' format.'')
                  (js ''Transcript:'' @ [0x0A] @ tr) of
             Inl m \<Rightarrow> (respond 500 (ErrorBody ''Something went wrong''), s)
           | Inr res \<Rightarrow>
               (respond 200 (ChaptersBody res),
                s\<lparr>transcripts := transcripts s @
                     [\<lparr>tid = next_id s, text_of = tr, format = fmt, result = res,
                       userId = c_userId c, createdAt = now\<rparr>],
                   next_id := Suc (next_id s)\<rparr>)))"

text \<open>
  The caller's own records, newest first. Records with the same \<^verbatim>\<open>createdAt\<close>, which
  the store leaves in no particular order, come latest-inserted first here.
\<close>

definition own_newest_first :: "object_id \<Rightarrow> transcript list \<Rightarrow> transcript list" where
  "own_newest_first i ts = rev (sort_key createdAt (filter (\<lambda>t. userId t = i) ts))"

definition get_transcripts :: "env \<Rightarrow> db \<Rightarrow> token option \<Rightarrow> response" where
  "get_transcripts ev s hdr =
     (case requireAuth ev hdr of
        Inl r \<Rightarrow> r
      | Inr c \<Rightarrow> respond 200 (TranscriptsBody (own_newest_first (c_userId c) (transcripts s))))"

text \<open>\<^verbatim>\<open>GET /api/history\<close> selects \<^verbatim>\<open>text format result createdAt\<close> (and the id).\<close>

definition get_history :: "env \<Rightarrow> db \<Rightarrow> token option \<Rightarrow> response" where
  "get_history ev s hdr =
     (case requireAuth ev hdr of
        Inl r \<Rightarrow> r
      | Inr c \<Rightarrow>
          respond 200 (HistoryBody
            (map (\<lambda>t. (tid t, text_of t, format t, result t, createdAt t))
               (own_newest_first (c_userId c) (transcripts s)))))"

fun delete_first :: "('a \<Rightarrow> bool) \<Rightarrow> 'a list \<Rightarrow> 'a list" where
  "delete_first P [] = []"
| "delete_first P (x # xs) = (if P x then xs else x # delete_first P xs)"

text \<open>\<^verbatim>\<open>DELETE /api/transcripts/:id\<close>: \<^verbatim>\<open>findOneAndDelete\<close> on id and owner.\<close>

definition delete_transcript ::
  "env \<Rightarrow> db \<Rightarrow> token option \<Rightarrow> object_id option \<Rightarrow> response \<times> db" where
  "delete_transcript ev s hdr target =
     (case requireAuth ev hdr of
        Inl r \<Rightarrow> (r, s)
      | Inr c \<Rightarrow>
          (case target of
             None \<Rightarrow> (respond 500 (Message ''Failed to delete transcript''), s)
           | Some i \<Rightarrow>
               (case find (\<lambda>t. tid t = i \<and> userId t = c_userId c) (transcripts s) of
                  None \<Rightarrow> (respond 404 (Message ''Transcript not found or unauthorized''), s)
                | Some t \<Rightarrow>
                    (respond 200 (Message ''Transcript deleted''),
                     s\<lparr>transcripts :=
                         delete_first (\<lambda>t. tid t = i \<and> userId t = c_userId c) (transcripts s)\<rparr>))))"

text \<open>\<^verbatim>\<open>DELETE /api/history/:id\<close>: \<^verbatim>\<open>findOne\<close> on id and owner, then deletion by id.\<close>

definition delete_history ::
  "env \<Rightarrow> db \<Rightarrow> token option \<Rightarrow> object_id option \<Rightarrow> response \<times> db" where
  "delete_history ev s hdr target =
     (case requireAuth ev hdr of
        Inl r \<Rightarrow> (r, s)
      | Inr c \<Rightarrow>
          (case target of
             None \<Rightarrow> (respond 500 (Message ''Failed to delete transcript''), s)
           | Some i \<Rightarrow>
               (case find (\<lambda>t. tid t = i \<and> userId t = c_userId c) (transcripts s) of
                  None \<Rightarrow> (respond 404 (Message ''Transcript not found''), s)
                | Some t \<Rightarrow>
                    (respond 200 (Message ''Transcript deleted successfully''),
                     s\<lparr>transcripts := delete_first (\<lambda>x. tid x = tid t) (transcripts s)\<rparr>))))"

text \<open>
  White space as \<^verbatim>\<open>String.prototype.trim\<close> sees it: the WhiteSpace and LineTerminator
  code points of ECMAScript, all of them single UTF-16 code units.
\<close>

definition is_js_whitespace :: "16 word \<Rightarrow> bool" where
  "is_js_whitespace c =
     (c \<in> {0x0009, 0x000A, 0x000B, 0x000C, 0x000D, 0x0020, 0x00A0, 0x1680,
            0x2028, 0x2029, 0x202F, 0x205F, 0x3000, 0xFEFF}
      \<or> (0x2000 \<le> c \<and> c \<le> 0x200A))"

definition trim :: "js_string \<Rightarrow> js_string" where
  "trim t = rev (dropWhile is_js_whitespace (rev (dropWhile is_js_whitespace t)))"

definition titles_prompt :: js_string where
  "titles_prompt =
     js (''You are a creative assistant that generates 5 catchy YouTube ''
         @ ''video titles based on transcripts.'')"

text \<open>
  \<^verbatim>\<open>POST /api/generate-titles\<close> (variant 2 only). The transcript is \<open>None\<close> when the
  body has none, and is taken to be a string when it has one; \<^verbatim>\<open>!transcript\<close> also
  holds of the empty string. The test is on the trimmed length; the prompt carries the
  transcript as supplied.
\<close>

definition generate_titles :: "env \<Rightarrow> token option \<Rightarrow> js_string option \<Rightarrow> response" where
  "generate_titles ev hdr transcript =
     (case requireAuth ev hdr of
        Inl r \<Rightarrow> r
      | Inr c \<Rightarrow>
          (case transcript of
             None \<Rightarrow> respond 400 (ErrorBody ''Transcript is too short or missing.'')
           | Some t \<Rightarrow>
               (if t = [] \<or> length (trim t) < 20
                then respond 400 (ErrorBody ''Transcript is too short or missing.'')
                else
                  (case openai_chat ev titles_prompt (js ''Transcript:'' @ [0x0A] @ t) of
                     Inl m \<Rightarrow> respond 500 (ErrorBody ''Failed to generate titles'')
                   | Inr titles \<Rightarrow> respond 200 (TitlesBody titles)))))"

section \<open>The routes of each variant\<close>

datatype request =
    Register string string
  | Login string "string option"
  | GenerateChapters nat "token option" js_string js_string
  | GetTranscripts "token option"
  | GetHistory "token option"
  | AdminUsers "token option"
  | ToggleAdmin "token option" "object_id option"
  | DeleteTranscript "token option" "object_id option"
  | DeleteHistory "token option" "object_id option"
  | GetProfile "token option"
  | PutProfile "token option" "string option" "string option"
  | GenerateTitles "token option" "js_string option"

text \<open>A request for a route the variant does not register gets Express's 404.\<close>

fun handle_v1 :: "env \<Rightarrow> db \<Rightarrow> request \<Rightarrow> response \<times> db" where
  "handle_v1 ev s (Register e p) = register_v1 ev s e p"
| "handle_v1 ev s (Login e pw) = (login_v1 ev s e pw, s)"
| "handle_v1 ev s (GenerateChapters now hdr tr fmt) = generate_chapters ev s now hdr tr fmt"
| "handle_v1 ev s (GetTranscripts hdr) = (get_transcripts ev s hdr, s)"
| "handle_v1 ev s (AdminUsers hdr) = (admin_users ev s hdr, s)"
| "handle_v1 ev s (ToggleAdmin hdr target) = toggle_admin_v1 ev s hdr target"
| "handle_v1 ev s other = (respond 404 NoRoute, s)"

fun handle_v2 :: "env \<Rightarrow> db \<Rightarrow> request \<Rightarrow> response \<times> db" where
  "handle_v2 ev s (Register e p) = register_v2 ev s e p"
| "handle_v2 ev s (Login e pw) = (login_v2 ev s e pw, s)"
| "handle_v2 ev s (GenerateChapters now hdr tr fmt) = generate_chapters ev s now hdr tr fmt"
| "handle_v2 ev s (GetTranscripts hdr) = (respond 404 NoRoute, s)"
| "handle_v2 ev s (GetHistory hdr) = (get_history ev s hdr, s)"
| "handle_v2 ev s (AdminUsers hdr) = (admin_users ev s hdr, s)"
| "handle_v2 ev s (ToggleAdmin hdr target) = toggle_admin_v2 ev s hdr target"
| "handle_v2 ev s (DeleteTranscript hdr target) = delete_transcript ev s hdr target"
| "handle_v2 ev s (DeleteHistory hdr target) = delete_history ev s hdr target"
| "handle_v2 ev s (GetProfile hdr) = (get_profile ev s hdr, s)"
| "handle_v2 ev s (PutProfile hdr nm b) = put_profile ev s hdr nm b"
| "handle_v2 ev s (GenerateTitles hdr transcript) = (generate_titles ev hdr transcript, s)"

text \<open>The role flags of the stored accounts, in order, each with the account's id.\<close>

definition owner_flags :: "db \<Rightarrow> (object_id \<times> bool) list" where
  "owner_flags s = map (\<lambda>u. (oid u, isOwner u)) (users s)"

text \<open>
  An \<^verbatim>\<open>ObjectId\<close> is generated once: every id of a stored account has been handed out
  by the generator, which here means that it lies below the next one.
\<close>

definition ids_below :: "db \<Rightarrow> bool" where
  "ids_below s = list_all (\<lambda>u. oid u < next_id s) (users s)"

section \<open>The admission controller\<close>

text \<open>
  Modelled from the spec: the limiter is the \<^verbatim>\<open>express-rate-limit\<close> package, which is
  not among the sources; the source only configures it (\<^verbatim>\<open>windowMs: 60 * 1000\<close>,
  \<^verbatim>\<open>max: 10\<close>, the message) and mounts it in front of every route. The spec's
  admission controller keeps, per client address, a request count and the start of the
  window: a request finds the window elapsed and opens a new one, or finds the count
  below the ceiling and is counted and admitted, or is rejected. Times are milliseconds.
\<close>

record rate_window =
  w_count :: nat
  w_start :: nat

type_synonym rate_windows = "string \<rightharpoonup> rate_window"

definition windowMs :: nat where
  "windowMs = 60 * 1000"

definition max_requests :: nat where
  "max_requests = 10"

definition tryAdmit :: "nat \<Rightarrow> string \<Rightarrow> rate_windows \<Rightarrow> bool \<times> rate_windows" where
  "tryAdmit now k m =
     (case m k of
        None \<Rightarrow> (True, m(k \<mapsto> \<lparr>w_count = 1, w_start = now\<rparr>))
      | Some w \<Rightarrow>
          (if w_start w + windowMs \<le> now then (True, m(k \<mapsto> \<lparr>w_count = 1, w_start = now\<rparr>))
           else if w_count w < max_requests then (True, m(k \<mapsto> w\<lparr>w_count := Suc (w_count w)\<rparr>))
           else (False, m)))"

definition limiter :: "nat \<Rightarrow> string \<Rightarrow> rate_windows \<Rightarrow> response option \<times> rate_windows" where
  "limiter now k m =
     (case tryAdmit now k m of
        (True, m') \<Rightarrow> (None, m')
      | (False, m') \<Rightarrow>
          (Some (respond 429 (ErrorBody ''Too many requests, please try again in a minute.'')),
           m'))"

text \<open>The answers to a run of requests of one client, at the given times.\<close>

fun run_limiter ::
  "string \<Rightarrow> nat list \<Rightarrow> rate_windows \<Rightarrow> response option list \<times> rate_windows" where
  "run_limiter k [] m = ([], m)"
| "run_limiter k (t # ts) m =
     (case limiter t k m of
        (r, m') \<Rightarrow> (case run_limiter k ts m' of (rs, m'') \<Rightarrow> (r # rs, m'')))"

definition too_many :: response where
  "too_many = respond 429 (ErrorBody ''Too many requests, please try again in a minute.'')"

section \<open>A sample deployment\<close>

text \<open>
  A concrete environment and store on which the theorems below are instantiated: an
  owner, an admin who is not an owner, and a plain user.
\<close>

definition sample_env :: env where
  "sample_env =
     \<lparr>bcrypt_hash = (\<lambda>p. Inr (''$2a$10$'' @ p)),
      bcrypt_compare = (\<lambda>p h. Inr (h = ''$2a$10$'' @ p)),
      jwt_verify = (\<lambda>t. Some (jwt_decode t)),
      openai_chat = (\<lambda>sys usr. Inr usr)\<rparr>"

definition sample_owner :: user where
  "sample_owner = \<lparr>oid = 101, email = ''owner@cp.io'', password = ''$2a$10$root'',
     isAdmin = True, isOwner = True, name = None, bio = None\<rparr>"

definition sample_admin :: user where
  "sample_admin = \<lparr>oid = 102, email = ''admin@cp.io'', password = ''$2a$10$adm'',
     isAdmin = True, isOwner = False, name = None, bio = None\<rparr>"

definition sample_plain :: user where
  "sample_plain = \<lparr>oid = 103, email = ''user@cp.io'', password = ''$2a$10$usr'',
     isAdmin = False, isOwner = False, name = None, bio = None\<rparr>"

definition sample_db :: db where
  "sample_db = \<lparr>users = [sample_owner, sample_admin, sample_plain], transcripts = [],
     next_id = 104\<rparr>"

definition token_for :: "user \<Rightarrow> token" where
  "token_for u =
     jwt_sign \<lparr>c_userId = oid u, c_isAdmin = isAdmin u, c_isOwner = Some (isOwner u)\<rparr> ''7d''"

section \<open>Facts about the store and the sample deployment\<close>


lemma findById_oid: "findById i us = Some u \<Longrightarrow> oid u = i"
  by (induction us) (auto simp: findById_def split: if_splits)

lemma findById_save_same:
  "findById i us = Some u \<Longrightarrow> oid d = i \<Longrightarrow> findById i (save_user d us) = Some d"
  by (induction us) (auto simp: findById_def)

lemma findById_save_other:
  "oid d \<noteq> j \<Longrightarrow> findById j (save_user d us) = findById j us"
  by (induction us) (auto simp: findById_def)

lemma save_user_twice:
  "oid d' = oid d \<Longrightarrow> save_user d' (save_user d us) = save_user d' us"
  by (induction us) auto

lemma save_user_found:
  "findById (oid u) us = Some u \<Longrightarrow> save_user u us = us"
  by (induction us) (auto simp: findById_def split: if_splits)

lemma save_user_flags:
  "findById (oid d) us = Some u \<Longrightarrow> isOwner d = isOwner u \<Longrightarrow>
   map (\<lambda>x. (oid x, isOwner x)) (save_user d us) = map (\<lambda>x. (oid x, isOwner x)) us"
  by (induction us) (auto simp: findById_def split: if_splits)

lemma findOne_email_append:
  "findOne_email e us = None \<Longrightarrow>
   findOne_email e (us @ [new_user i e h]) = Some (new_user i e h)"
  by (induction us) (auto simp: findOne_email_def new_user_def split: if_splits)

lemma findById_flags:
  "map (\<lambda>x. (oid x, isOwner x)) us' = map (\<lambda>x. (oid x, isOwner x)) us @ new \<Longrightarrow>
   findById i us = Some u \<Longrightarrow> \<exists>u'. findById i us' = Some u' \<and> isOwner u' = isOwner u"
proof (induction us arbitrary: us')
  case Nil
  then show ?case by (simp add: findById_def)
next
  case (Cons x xs)
  then obtain y ys where us': "us' = y # ys" by (cases us') auto
  with Cons.prems(1) have hd: "oid y = oid x" "isOwner y = isOwner x"
    and tl: "map (\<lambda>x. (oid x, isOwner x)) ys = map (\<lambda>x. (oid x, isOwner x)) xs @ new"
    by auto
  show ?case
  proof (cases "oid x = i")
    case True
    then show ?thesis using Cons.prems(2) hd us' by (simp add: findById_def)
  next
    case False
    then have "findById i xs = Some u" using Cons.prems(2) by (simp add: findById_def)
    from Cons.IH [OF tl this] show ?thesis using False hd us' by (simp add: findById_def)
  qed
qed

lemma requireAuth_sample:
  "requireAuth sample_env (Some (token_for u)) =
     Inr \<lparr>c_userId = oid u, c_isAdmin = isAdmin u, c_isOwner = Some (isOwner u)\<rparr>"
  by (simp add: requireAuth_def sample_env_def token_for_def)

lemma sample_fields:
  "oid sample_owner = 101" "isAdmin sample_owner" "isOwner sample_owner"
  "oid sample_admin = 102" "isAdmin sample_admin" "\<not> isOwner sample_admin"
  "oid sample_plain = 103" "\<not> isAdmin sample_plain" "\<not> isOwner sample_plain"
  by (simp_all add: sample_owner_def sample_admin_def sample_plain_def)

lemma sample_find:
  "findById 101 (users sample_db) = Some sample_owner"
  "findById 102 (users sample_db) = Some sample_admin"
  "findById 103 (users sample_db) = Some sample_plain"
  by (simp_all add: findById_def sample_db_def sample_fields)

lemma sample_fresh: "findOne_email ''new@cp.io'' (users sample_db) = None"
  by (simp add: findOne_email_def sample_db_def sample_owner_def sample_admin_def sample_plain_def)

lemma sample_next: "next_id sample_db = 104"
  by (simp add: sample_db_def)

lemma sample_hash: "bcrypt_hash sample_env p = Inr (''$2a$10$'' @ p)"
  by (simp add: sample_env_def)

lemma sample_admin_email: "findOne_email ''admin@cp.io'' (users sample_db) = Some sample_admin"
  by (simp add: findOne_email_def sample_db_def sample_owner_def sample_admin_def sample_plain_def)

section \<open>Who may toggle\<close>

text \<open>
  C1, as the code has it. For an authenticated request to the toggle route, variant 2
  answers the actor check's 403 and leaves the store alone exactly when the actor's
  stored record is missing or has \<^verbatim>\<open>isOwner\<close> false, admin or not; it goes past the
  check exactly when the stored record has \<^verbatim>\<open>isOwner\<close> true. Variant 1 makes the same
  check on \<^verbatim>\<open>isAdmin\<close> instead: there an admin who is no owner goes past it.
\<close>

theorem toggle_admin_actor_gate:
  assumes "requireAuth ev hdr = Inr c"
  shows "(if \<exists>a. findById (c_userId c) (users s) = Some a \<and> isOwner a
          then fst (toggle_admin_v2 ev s hdr target) \<noteq>
                 respond 403 (ErrorBody ''Forbidden: Only owner can manage admin roles'')
          else toggle_admin_v2 ev s hdr target =
                 (respond 403 (ErrorBody ''Forbidden: Only owner can manage admin roles''), s))
       \<and> (if \<exists>a. findById (c_userId c) (users s) = Some a \<and> isAdmin a
          then fst (toggle_admin_v1 ev s hdr target) \<noteq>
                 respond 403 (ErrorBody ''Forbidden: Admins only'')
          else toggle_admin_v1 ev s hdr target =
                 (respond 403 (ErrorBody ''Forbidden: Admins only''), s))"
  using assms
  by (auto simp: toggle_admin_v2_def toggle_admin_v1_def respond_def Let_def
      split: option.splits)

text \<open>
  In the sample deployment the admin is refused by variant 2 and the owner is not.
\<close>

theorem toggle_admin_actor_gate_witness:
  "toggle_admin_v2 sample_env sample_db (Some (token_for sample_admin)) (Some 103) =
       (respond 403 (ErrorBody ''Forbidden: Only owner can manage admin roles''), sample_db)
   \<and> fst (toggle_admin_v2 sample_env sample_db (Some (token_for sample_owner)) (Some 103)) \<noteq>
       respond 403 (ErrorBody ''Forbidden: Only owner can manage admin roles'')"
  using toggle_admin_actor_gate [OF requireAuth_sample, of sample_admin sample_db "Some 103"]
    toggle_admin_actor_gate [OF requireAuth_sample, of sample_owner sample_db "Some 103"]
  by (simp add: sample_find sample_fields)

text \<open>
  Variant 1 at the same request: the actor is authenticated, its stored record has
  \<^verbatim>\<open>isOwner\<close> false, and the toggle is carried out.
\<close>

theorem toggle_admin_v1_admits_admin:
  "requireAuth sample_env (Some (token_for sample_admin)) =
     Inr \<lparr>c_userId = 102, c_isAdmin = True, c_isOwner = Some False\<rparr>
   \<and> findById 102 (users sample_db) = Some sample_admin
   \<and> \<not> isOwner sample_admin
   \<and> fst (toggle_admin_v1 sample_env sample_db (Some (token_for sample_admin)) (Some 103)) =
       respond 200 (MessageUser ''User updated'' (sample_plain\<lparr>isAdmin := True\<rparr>))"
  by (simp add: toggle_admin_v1_def requireAuth_sample sample_find sample_fields Let_def)

section \<open>Owners as targets\<close>

text \<open>
  C2, as the code has it. An authenticated call of the toggle whose target exists and is
  an owner is answered 403 by variant 2 and leaves the store, so the target's
  \<^verbatim>\<open>isAdmin\<close>, unchanged, whoever the actor is. Variant 1 has no such guard: when the
  actor's stored record has \<^verbatim>\<open>isAdmin\<close> true it answers 200 and stores the target with
  \<^verbatim>\<open>isAdmin\<close> flipped.
\<close>

theorem toggle_admin_owner_target:
  assumes "requireAuth ev hdr = Inr c"
      and "findById t (users s) = Some u"
      and "isOwner u"
  shows "status (fst (toggle_admin_v2 ev s hdr (Some t))) = 403
       \<and> snd (toggle_admin_v2 ev s hdr (Some t)) = s
       \<and> ((\<exists>a. findById (c_userId c) (users s) = Some a \<and> isAdmin a) \<longrightarrow>
            fst (toggle_admin_v1 ev s hdr (Some t)) =
              respond 200 (MessageUser ''User updated'' (u\<lparr>isAdmin := \<not> isAdmin u\<rparr>))
          \<and> findById t (users (snd (toggle_admin_v1 ev s hdr (Some t)))) =
              Some (u\<lparr>isAdmin := \<not> isAdmin u\<rparr>))"
proof -
  have v2: "status (fst (toggle_admin_v2 ev s hdr (Some t))) = 403
       \<and> snd (toggle_admin_v2 ev s hdr (Some t)) = s"
    using assms by (simp add: toggle_admin_v2_def respond_def split: option.splits)
  have sv: "findById t (save_user (u\<lparr>isAdmin := \<not> isAdmin u\<rparr>) (users s)) =
      Some (u\<lparr>isAdmin := \<not> isAdmin u\<rparr>)"
    using assms(2) findById_oid [OF assms(2)] by (intro findById_save_same) auto
  have v1: "(\<exists>a. findById (c_userId c) (users s) = Some a \<and> isAdmin a) \<longrightarrow>
            fst (toggle_admin_v1 ev s hdr (Some t)) =
              respond 200 (MessageUser ''User updated'' (u\<lparr>isAdmin := \<not> isAdmin u\<rparr>))
          \<and> findById t (users (snd (toggle_admin_v1 ev s hdr (Some t)))) =
              Some (u\<lparr>isAdmin := \<not> isAdmin u\<rparr>)"
    using assms sv by (auto simp: toggle_admin_v1_def Let_def)
  show ?thesis using v2 v1 by blast
qed

text \<open>The owner of the sample deployment cannot be toggled by variant 2, not even by itself.\<close>

theorem toggle_admin_owner_target_witness:
  "status (fst (toggle_admin_v2 sample_env sample_db (Some (token_for sample_owner)) (Some 101))) = 403
   \<and> snd (toggle_admin_v2 sample_env sample_db (Some (token_for sample_owner)) (Some 101)) = sample_db
   \<and> isOwner sample_owner"
  using toggle_admin_owner_target [OF requireAuth_sample, of 101 sample_db sample_owner sample_owner]
  by (simp add: sample_find sample_fields)

text \<open>Variant 1 lets the sample admin take the owner's admin flag away.\<close>

theorem toggle_admin_v1_flips_owner:
  "findById 101 (users sample_db) = Some sample_owner
   \<and> isOwner sample_owner \<and> isAdmin sample_owner
   \<and> status (fst (toggle_admin_v1 sample_env sample_db (Some (token_for sample_admin)) (Some 101))) = 200
   \<and> map_option isAdmin (findById 101 (users (snd
        (toggle_admin_v1 sample_env sample_db (Some (token_for sample_admin)) (Some 101))))) = Some False"
  by (simp add: toggle_admin_v1_def requireAuth_sample sample_find sample_fields respond_def
        findById_save_same Let_def)

section \<open>Role checks read the store\<close>

text \<open>
  C3. On \<^verbatim>\<open>GET /api/admin/users\<close> the role check looks the actor up by the id of the
  token's claims and decides on the stored record alone: whatever the claims say about
  \<^verbatim>\<open>isAdmin\<close>, an actor whose stored record is missing or has \<^verbatim>\<open>isAdmin\<close> false is
  answered 403, and an actor whose stored record has \<^verbatim>\<open>isAdmin\<close> true is answered the
  listing. Two verified tokens for the same id get the same answer, whatever else they
  claim.
\<close>

theorem admin_users_checks_stored_role:
  assumes "requireAuth ev hdr = Inr c"
  shows "admin_users ev s hdr =
     (case findById (c_userId c) (users s) of
        None \<Rightarrow> respond 403 (Message ''Access denied. Admins only.'')
      | Some u \<Rightarrow>
          (if isAdmin u then respond 200 (UsersBody (map select_minus_password (users s)))
           else respond 403 (Message ''Access denied. Admins only.'')))
       \<and> (requireAuth ev hdr' = Inr c' \<and> c_userId c' = c_userId c \<longrightarrow>
            admin_users ev s hdr' = admin_users ev s hdr)"
  using assms by (auto simp: admin_users_def requireAdmin_def split: option.splits)

text \<open>
  A token that still says \<^verbatim>\<open>isAdmin: true\<close> for the sample's plain user is verified and
  then refused.
\<close>

theorem admin_users_checks_stored_role_witness:
  "requireAuth sample_env
     (Some (jwt_sign \<lparr>c_userId = 103, c_isAdmin = True, c_isOwner = Some False\<rparr> ''7d'')) =
     Inr \<lparr>c_userId = 103, c_isAdmin = True, c_isOwner = Some False\<rparr>
   \<and> admin_users sample_env sample_db
       (Some (jwt_sign \<lparr>c_userId = 103, c_isAdmin = True, c_isOwner = Some False\<rparr> ''7d'')) =
     respond 403 (Message ''Access denied. Admins only.'')"
proof -
  have a: "requireAuth sample_env
     (Some (jwt_sign \<lparr>c_userId = 103, c_isAdmin = True, c_isOwner = Some False\<rparr> ''7d'')) =
     Inr \<lparr>c_userId = 103, c_isAdmin = True, c_isOwner = Some False\<rparr>"
    by (simp add: requireAuth_def sample_env_def)
  show ?thesis
    using a admin_users_checks_stored_role [OF a, of sample_db None]
    by (simp add: sample_find sample_fields)
qed

section \<open>Admission\<close>

lemma limiter_other_client:
  "k' \<noteq> k \<Longrightarrow> snd (limiter t k' m) k = m k"
  by (simp add: limiter_def tryAdmit_def split: option.splits)

lemma run_in_window:
  "m k = Some w \<Longrightarrow> w_count w \<le> max_requests \<Longrightarrow> \<forall>t\<in>set ts. t < w_start w + windowMs \<Longrightarrow>
   fst (run_limiter k ts m) =
     replicate (min (length ts) (max_requests - w_count w)) None @
     replicate (length ts - (max_requests - w_count w)) (Some too_many)
   \<and> snd (run_limiter k ts m) k =
       Some (w\<lparr>w_count := min max_requests (w_count w + length ts)\<rparr>)"
proof (induction ts arbitrary: m w)
  case Nil
  then show ?case by simp
next
  case (Cons t ts)
  have tw: "\<not> w_start w + windowMs \<le> t" using Cons.prems(3) by auto
  show ?case
  proof (cases "w_count w < max_requests")
    case True
    let ?w' = "w\<lparr>w_count := Suc (w_count w)\<rparr>"
    let ?m' = "m(k \<mapsto> ?w')"
    have step: "limiter t k m = (None, ?m')"
      using Cons.prems(1) tw True by (simp add: limiter_def tryAdmit_def)
    have ih: "fst (run_limiter k ts ?m') =
        replicate (min (length ts) (max_requests - w_count ?w')) None @
        replicate (length ts - (max_requests - w_count ?w')) (Some too_many)
      \<and> snd (run_limiter k ts ?m') k =
        Some (?w'\<lparr>w_count := min max_requests (w_count ?w' + length ts)\<rparr>)"
      using Cons.prems(3) True by (intro Cons.IH) auto
    obtain n where n: "max_requests - w_count w = Suc n" using True
      by (metis Suc_diff_Suc)
    then have n': "max_requests - Suc (w_count w) = n" by simp
    show ?thesis using ih step n n'
      by (simp add: split_beta)
  next
    case False
    then have full: "w_count w = max_requests" using Cons.prems(2) by simp
    have step: "limiter t k m = (Some too_many, m)"
      using Cons.prems(1) tw False by (simp add: limiter_def tryAdmit_def too_many_def)
    have ih: "fst (run_limiter k ts m) =
        replicate (min (length ts) (max_requests - w_count w)) None @
        replicate (length ts - (max_requests - w_count w)) (Some too_many)
      \<and> snd (run_limiter k ts m) k =
        Some (w\<lparr>w_count := min max_requests (w_count w + length ts)\<rparr>)"
      using Cons.prems by (intro Cons.IH) auto
    show ?thesis using ih step full
      by (simp add: split_beta)
  qed
qed

lemma limiter_opens:
  "(case m k of None \<Rightarrow> True | Some w \<Rightarrow> w_start w + windowMs \<le> t0) \<Longrightarrow>
   limiter t0 k m = (None, m(k \<mapsto> \<lparr>w_count = 1, w_start = t0\<rparr>))"
  by (cases "m k") (simp_all add: limiter_def tryAdmit_def)

text \<open>
  C8. A client whose window is absent or has elapsed opens a window with its request at
  \<open>t0\<close>. Of that request and the ones that follow within 60 seconds of \<open>t0\<close>, the
  first 10 are admitted and every later one is answered 429 with the configured message;
  the first request at or after \<open>t0 + 60000\<close> is admitted again and the count is back
  at 1. Requests of other clients do not touch the client's window.
\<close>

theorem limiter_window:
  assumes fresh: "case m k of None \<Rightarrow> True | Some w \<Rightarrow> w_start w + windowMs \<le> t0"
      and inwin: "\<forall>t\<in>set ts. t < t0 + windowMs"
      and later: "t0 + windowMs \<le> t'"
  shows "fst (run_limiter k (t0 # ts) m) =
           replicate (min (Suc (length ts)) max_requests) None @
           replicate (Suc (length ts) - max_requests) (Some too_many)
       \<and> limiter t' k (snd (run_limiter k (t0 # ts) m)) =
           (None, (snd (run_limiter k (t0 # ts) m))(k \<mapsto> \<lparr>w_count = 1, w_start = t'\<rparr>))
       \<and> (k' \<noteq> k \<longrightarrow> snd (limiter t k' m) k = m k)"
proof -
  let ?w0 = "\<lparr>w_count = 1, w_start = t0\<rparr>"
  let ?m0 = "m(k \<mapsto> ?w0)"
  have op: "limiter t0 k m = (None, ?m0)" using fresh by (rule limiter_opens)
  have run: "fst (run_limiter k ts ?m0) =
     replicate (min (length ts) (max_requests - w_count ?w0)) None @
     replicate (length ts - (max_requests - w_count ?w0)) (Some too_many)
   \<and> snd (run_limiter k ts ?m0) k =
       Some (?w0\<lparr>w_count := min max_requests (w_count ?w0 + length ts)\<rparr>)"
    using inwin by (intro run_in_window) (auto simp: max_requests_def)
  have nine: "max_requests - 1 = 9" by (simp add: max_requests_def)
  have a: "fst (run_limiter k (t0 # ts) m) =
           replicate (min (Suc (length ts)) max_requests) None @
           replicate (Suc (length ts) - max_requests) (Some too_many)"
    using op run by (simp add: split_beta max_requests_def)
  have fin: "snd (run_limiter k (t0 # ts) m) k =
      Some (?w0\<lparr>w_count := min max_requests (1 + length ts)\<rparr>)"
    using op run by (simp add: split_beta)
  have b: "limiter t' k (snd (run_limiter k (t0 # ts) m)) =
           (None, (snd (run_limiter k (t0 # ts) m))(k \<mapsto> \<lparr>w_count = 1, w_start = t'\<rparr>))"
    using fin later by (intro limiter_opens) simp
  show ?thesis using a b limiter_other_client by blast
qed

text \<open>Eleven requests within a minute, and one at the start of the next.\<close>

theorem limiter_window_witness:
  "fst (run_limiter ''10.0.0.7''
          [0, 1000, 2000, 3000, 4000, 5000, 6000, 7000, 8000, 9000, 59999] Map.empty)
     = [None, None, None, None, None, None, None, None, None, None, Some too_many]
   \<and> fst (limiter 60000 ''10.0.0.7''
        (snd (run_limiter ''10.0.0.7''
          [0, 1000, 2000, 3000, 4000, 5000, 6000, 7000, 8000, 9000, 59999] Map.empty))) = None"
  using limiter_window [where m = Map.empty and k = "''10.0.0.7''" and ?t0.0 = 0
      and ts = "[1000, 2000, 3000, 4000, 5000, 6000, 7000, 8000, 9000, 59999]"
      and t' = 60000 and k' = "''10.0.0.7''"]
  by (simp add: windowMs_def max_requests_def)

section \<open>Registration\<close>

lemma findById_mem: "findById i us = Some u \<Longrightarrow> u \<in> set us"
  by (induction us) (auto simp: findById_def split: if_splits)

lemma ids_below_fresh: "ids_below s \<Longrightarrow> findById (next_id s) (users s) = None"
  by (auto simp: ids_below_def findById_def find_None_iff list_all_iff)

lemma findById_append_new:
  "findById i us = None \<Longrightarrow> findById i (us @ [new_user i e h]) = Some (new_user i e h)"
  by (induction us) (auto simp: findById_def new_user_def split: if_splits)

lemma ids_below_insert: "ids_below s \<Longrightarrow> ids_below (insert_user e h s)"
  by (auto simp: ids_below_def insert_user_def new_user_def list_all_iff less_Suc_eq)

lemma ids_below_save:
  assumes "ids_below s" and "findById i (users s) = Some u" and "oid d = oid u"
  shows "ids_below (s\<lparr>users := save_user d (users s)\<rparr>)"
proof -
  have "oid u < next_id s"
    using assms(1) findById_mem [OF assms(2)] by (simp add: ids_below_def list_all_iff)
  then have d: "oid d < next_id s" using assms(3) by simp
  have "list_all (\<lambda>x. oid x < n) us \<Longrightarrow> oid d < n \<Longrightarrow>
      list_all (\<lambda>x. oid x < n) (save_user d us)" for n us
    by (induction us) auto
  then show ?thesis using assms(1) d by (simp add: ids_below_def)
qed

lemma register_v1_ids_below: "ids_below s \<Longrightarrow> ids_below (snd (register_v1 ev s e p))"
  by (auto simp: register_v1_def ids_below_insert split: option.splits sum.splits)

lemma register_v2_ids_below: "ids_below s \<Longrightarrow> ids_below (snd (register_v2 ev s e p))"
  by (auto simp: register_v2_def create_hashing_def ids_below_insert
      split: option.splits sum.splits)

lemma toggle_admin_v1_ids_below:
  "ids_below s \<Longrightarrow> ids_below (snd (toggle_admin_v1 ev s hdr target))"
  by (auto simp: toggle_admin_v1_def Let_def split: option.splits sum.splits
      intro: ids_below_save)

lemma toggle_admin_v2_ids_below:
  "ids_below s \<Longrightarrow> ids_below (snd (toggle_admin_v2 ev s hdr target))"
  by (auto simp: toggle_admin_v2_def Let_def split: option.splits sum.splits
      intro: ids_below_save)

lemma put_profile_ids_below:
  "ids_below s \<Longrightarrow> ids_below (snd (put_profile ev s hdr nm b))"
  by (auto simp: put_profile_def split: option.splits sum.splits intro: ids_below_save)

lemma generate_chapters_ids_below:
  "ids_below s \<Longrightarrow> ids_below (snd (generate_chapters ev s now hdr tr fmt))"
  by (auto simp: generate_chapters_def ids_below_def list_all_iff less_Suc_eq
      split: option.splits sum.splits)

lemma delete_transcript_ids_below:
  "ids_below s \<Longrightarrow> ids_below (snd (delete_transcript ev s hdr target))"
  by (auto simp: delete_transcript_def ids_below_def split: option.splits sum.splits)

lemma delete_history_ids_below:
  "ids_below s \<Longrightarrow> ids_below (snd (delete_history ev s hdr target))"
  by (auto simp: delete_history_def ids_below_def split: option.splits sum.splits)

text \<open>
  Every request leaves the ids of the stored accounts below the next id, in both
  variants; the empty store and the sample deployment start that way.
\<close>

lemma handle_v1_ids_below: "ids_below s \<Longrightarrow> ids_below (snd (handle_v1 ev s req))"
  by (cases req)
    (simp_all add: register_v1_ids_below toggle_admin_v1_ids_below generate_chapters_ids_below)

lemma handle_v2_ids_below: "ids_below s \<Longrightarrow> ids_below (snd (handle_v2 ev s req))"
  by (cases req)
    (simp_all add: register_v2_ids_below toggle_admin_v2_ids_below generate_chapters_ids_below
      put_profile_ids_below delete_transcript_ids_below delete_history_ids_below)

lemma ids_below_empty: "ids_below \<lparr>users = [], transcripts = [], next_id = n\<rparr>"
  by (simp add: ids_below_def)

lemma sample_ids_below: "ids_below sample_db"
  by (simp add: ids_below_def sample_db_def sample_fields)

text \<open>
  C4, as the code has it. Take a store whose account ids were all handed out by the id
  generator, a registration with an email that no stored account has, and a password
  that the hashing service hashes. Both variants answer 201 and append one account,
  whose id no stored account had. Variant 2 answers with a token whose claims decode to
  that id, under which, and under the email, the new account and no other is found
  afterwards. Variant 1 answers with the message \<^verbatim>\<open>User created\<close> and no token.
\<close>

theorem register_fresh_email:
  assumes "findOne_email e (users s) = None"
      and "bcrypt_hash ev p = Inr h"
      and "ids_below s"
  shows "(\<exists>tok. fst (register_v2 ev s e p) = respond 201 (TokenBody tok)
            \<and> c_userId (jwt_decode tok) = next_id s
            \<and> findById (c_userId (jwt_decode tok)) (users (snd (register_v2 ev s e p))) =
                Some (new_user (next_id s) e h))
       \<and> findById (next_id s) (users s) = None
       \<and> users (snd (register_v2 ev s e p)) = users s @ [new_user (next_id s) e h]
       \<and> findOne_email e (users (snd (register_v2 ev s e p))) = Some (new_user (next_id s) e h)
       \<and> ids_below (snd (register_v2 ev s e p))
       \<and> register_v1 ev s e p = (respond 201 (Message ''User created''), insert_user e h s)
       \<and> users (insert_user e h s) = users s @ [new_user (next_id s) e h]"
proof -
  let ?n = "new_user (next_id s) e h"
  let ?tok = "jwt_sign \<lparr>c_userId = next_id s, c_isAdmin = False, c_isOwner = Some False\<rparr> ''7d''"
  have found: "findOne_email e (users s @ [?n]) = Some ?n"
    using assms(1) by (rule findOne_email_append)
  have fresh: "findById (next_id s) (users s) = None"
    using assms(3) by (rule ids_below_fresh)
  have byid: "findById (next_id s) (users s @ [?n]) = Some ?n"
    using fresh by (rule findById_append_new)
  have ins: "users (insert_user e h s) = users s @ [?n]"
    by (simp add: insert_user_def)
  have v2: "register_v2 ev s e p = (respond 201 (TokenBody ?tok), insert_user e h s)"
    using assms(1,2) found
    by (simp add: register_v2_def create_hashing_def insert_user_def new_user_def)
  have dec: "c_userId (jwt_decode ?tok) = next_id s" by simp
  have tok: "\<exists>tok. fst (register_v2 ev s e p) = respond 201 (TokenBody tok)
            \<and> c_userId (jwt_decode tok) = next_id s
            \<and> findById (c_userId (jwt_decode tok)) (users (snd (register_v2 ev s e p))) =
                Some ?n"
    using v2 dec byid ins by (intro exI [of _ ?tok]) simp
  have stored: "users (snd (register_v2 ev s e p)) = users s @ [?n]"
    using v2 ins by simp
  have inv: "ids_below (snd (register_v2 ev s e p))"
    using assms(3) by (rule register_v2_ids_below)
  have v1: "register_v1 ev s e p = (respond 201 (Message ''User created''), insert_user e h s)"
    using assms(1,2) by (simp add: register_v1_def)
  show ?thesis using tok fresh stored found inv v1 ins by simp
qed

text \<open>
  A new address registers on the sample deployment and gets the next id, 104, which
  finds the new account afterwards.
\<close>

theorem register_fresh_email_witness:
  "findOne_email ''new@cp.io'' (users sample_db) = None
   \<and> ids_below sample_db
   \<and> (\<exists>tok. fst (register_v2 sample_env sample_db ''new@cp.io'' ''s3cret'') =
          respond 201 (TokenBody tok) \<and> c_userId (jwt_decode tok) = 104
        \<and> findById (c_userId (jwt_decode tok))
            (users (snd (register_v2 sample_env sample_db ''new@cp.io'' ''s3cret''))) =
          Some (new_user 104 ''new@cp.io'' (''$2a$10$'' @ ''s3cret'')))
   \<and> findById 104 (users sample_db) = None"
proof -
  note t = register_fresh_email [OF sample_fresh sample_hash sample_ids_below, of "''s3cret''",
      unfolded sample_next]
  show ?thesis using t sample_fresh sample_ids_below by blast
qed

text \<open>
  Variant 1 at the same request: 201, and a body that is a message, not a token.
\<close>

theorem register_v1_sends_no_token:
  "findOne_email ''new@cp.io'' (users sample_db) = None
   \<and> status (fst (register_v1 sample_env sample_db ''new@cp.io'' ''s3cret'')) = 201
   \<and> body (fst (register_v1 sample_env sample_db ''new@cp.io'' ''s3cret'')) = Message ''User created''"
  by (simp add: register_v1_def sample_fresh sample_hash respond_def)

section \<open>Login failures\<close>

text \<open>
  With a password that is a string, a login with an email that no stored account has and
  a login with a stored email whose hash \<^verbatim>\<open>bcrypt.compare\<close> finds not to match get the
  same response in both variants: status 400 with the message \<^verbatim>\<open>Invalid credentials\<close>.
\<close>

lemma login_string_password_failures:
  assumes "findOne_email e1 (users s) = None"
      and "findOne_email e2 (users s) = Some u"
      and "bcrypt_compare ev p2 (password u) = Inr False"
  shows "login_v2 ev s e1 pw1 = respond 400 (Message ''Invalid credentials'')
       \<and> login_v2 ev s e2 (Some p2) = respond 400 (Message ''Invalid credentials'')
       \<and> login_v1 ev s e1 pw1 = respond 400 (Message ''Invalid credentials'')
       \<and> login_v1 ev s e2 (Some p2) = respond 400 (Message ''Invalid credentials'')"
  using assms by (simp add: login_v2_def login_v1_def compare_password_def)

text \<open>
  With no password in the body, the two cases part: the unknown email is answered 400
  before any comparison, the stored email runs into the rejected comparison and is
  answered 500 with its message, whatever the environment and the store.
\<close>

lemma login_missing_password:
  "(findOne_email e (users s) = None \<longrightarrow>
      login_v2 ev s e None = respond 400 (Message ''Invalid credentials'')
    \<and> login_v1 ev s e None = respond 400 (Message ''Invalid credentials''))
   \<and> (findOne_email e (users s) = Some u \<longrightarrow>
      login_v2 ev s e None =
        respond 500 (MessageError ''Login error'' ''Illegal arguments: undefined, string'')
    \<and> login_v1 ev s e None =
        respond 500 (MessageError ''Login error'' ''Illegal arguments: undefined, string''))"
  by (simp add: login_v2_def login_v1_def compare_password_def)

text \<open>
  C7, where the code departs from it. On the sample deployment a login without a password
  is answered 500 \<^verbatim>\<open>Login error\<close> for the admin's email, which is stored, and 400
  \<^verbatim>\<open>Invalid credentials\<close> for an email that is not: the two responses differ in status
  and in body, in both variants, so the caller learns which emails have accounts.
\<close>

theorem login_missing_password_distinguishes:
  "findOne_email ''admin@cp.io'' (users sample_db) = Some sample_admin
   \<and> findOne_email ''new@cp.io'' (users sample_db) = None
   \<and> login_v2 sample_env sample_db ''admin@cp.io'' None =
       respond 500 (MessageError ''Login error'' ''Illegal arguments: undefined, string'')
   \<and> login_v2 sample_env sample_db ''new@cp.io'' None =
       respond 400 (Message ''Invalid credentials'')
   \<and> login_v1 sample_env sample_db ''admin@cp.io'' None =
       respond 500 (MessageError ''Login error'' ''Illegal arguments: undefined, string'')
   \<and> login_v1 sample_env sample_db ''new@cp.io'' None =
       respond 400 (Message ''Invalid credentials'')
   \<and> login_v2 sample_env sample_db ''admin@cp.io'' None \<noteq>
       login_v2 sample_env sample_db ''new@cp.io'' None"
  by (simp add: login_v2_def login_v1_def compare_password_def sample_admin_email sample_fresh
      respond_def)

section \<open>Toggling twice\<close>

text \<open>
  C6. In variant 2, two toggles in a row on an existing target that is no owner, each
  called by an authenticated actor whose stored record is an owner's, both succeed; the
  first stores the target with \<^verbatim>\<open>isAdmin\<close> negated, the second stores the original
  target again, and the store is back where it started. The second actor's authorization
  is assumed for the store before the first call and carries over, an owner not being
  the target.
\<close>

theorem toggle_admin_twice:
  assumes auth1: "requireAuth ev hdr1 = Inr c1"
      and own1: "findById (c_userId c1) (users s) = Some a1" "isOwner a1"
      and auth2: "requireAuth ev hdr2 = Inr c2"
      and own2: "findById (c_userId c2) (users s) = Some a2" "isOwner a2"
      and tgt: "findById t (users s) = Some u" "\<not> isOwner u"
  shows "toggle_admin_v2 ev s hdr1 (Some t) =
           (respond 200 (MessageUser ''User role updated'' (u\<lparr>isAdmin := \<not> isAdmin u\<rparr>)),
            s\<lparr>users := save_user (u\<lparr>isAdmin := \<not> isAdmin u\<rparr>) (users s)\<rparr>)
       \<and> findById t (users (snd (toggle_admin_v2 ev s hdr1 (Some t)))) =
           Some (u\<lparr>isAdmin := \<not> isAdmin u\<rparr>)
       \<and> toggle_admin_v2 ev (snd (toggle_admin_v2 ev s hdr1 (Some t))) hdr2 (Some t) =
           (respond 200 (MessageUser ''User role updated'' u), s)"
proof -
  let ?u' = "u\<lparr>isAdmin := \<not> isAdmin u\<rparr>"
  let ?s1 = "s\<lparr>users := save_user ?u' (users s)\<rparr>"
  have ou: "oid u = t" using tgt(1) by (rule findById_oid)
  have first: "toggle_admin_v2 ev s hdr1 (Some t) =
      (respond 200 (MessageUser ''User role updated'' ?u'), ?s1)"
    using auth1 own1 tgt by (simp add: toggle_admin_v2_def Let_def)
  have t1: "findById t (users ?s1) = Some ?u'"
    using tgt(1) ou by (simp add: findById_save_same)
  have "c_userId c2 \<noteq> t" using own2 tgt by auto
  then have a2: "findById (c_userId c2) (users ?s1) = Some a2"
    using own2(1) ou by (simp add: findById_save_other)
  have "save_user u (save_user ?u' (users s)) = save_user u (users s)"
    by (rule save_user_twice) simp
  also have "\<dots> = users s" using tgt(1) ou by (simp add: save_user_found)
  finally have stored: "save_user u (save_user ?u' (users s)) = users s" .
  have second: "toggle_admin_v2 ev ?s1 hdr2 (Some t) =
      (respond 200 (MessageUser ''User role updated'' u), s)"
    using auth2 a2 own2(2) t1 tgt(2) stored
    by (simp add: toggle_admin_v2_def Let_def)
  show ?thesis using first t1 second by simp
qed

text \<open>
  The sample owner promotes the plain user and demotes it again.
\<close>

theorem toggle_admin_twice_witness:
  "\<not> isAdmin sample_plain
   \<and> findById 103 (users (snd
        (toggle_admin_v2 sample_env sample_db (Some (token_for sample_owner)) (Some 103)))) =
       Some (sample_plain\<lparr>isAdmin := \<not> isAdmin sample_plain\<rparr>)
   \<and> toggle_admin_v2 sample_env
        (snd (toggle_admin_v2 sample_env sample_db (Some (token_for sample_owner)) (Some 103)))
        (Some (token_for sample_owner)) (Some 103) =
       (respond 200 (MessageUser ''User role updated'' sample_plain), sample_db)"
proof -
  have o: "findById (c_userId \<lparr>c_userId = oid sample_owner, c_isAdmin = isAdmin sample_owner,
      c_isOwner = Some (isOwner sample_owner)\<rparr>) (users sample_db) = Some sample_owner"
    by (simp add: sample_fields sample_find)
  note t = toggle_admin_twice [OF requireAuth_sample o sample_fields(3)
      requireAuth_sample o sample_fields(3) sample_find(3) sample_fields(9)]
  show ?thesis using t sample_fields(8) by blast
qed

section \<open>The owner flag is never written\<close>

lemma register_v1_flags:
  "owner_flags (snd (register_v1 ev s e p)) = owner_flags s
   \<or> owner_flags (snd (register_v1 ev s e p)) = owner_flags s @ [(next_id s, False)]"
  by (simp add: register_v1_def owner_flags_def insert_user_def new_user_def
      split: option.splits sum.splits)

lemma create_hashing_flags:
  "create_hashing ev e p s = Inr s' \<Longrightarrow> owner_flags s' = owner_flags s @ [(next_id s, False)]"
  by (auto simp: create_hashing_def insert_user_def new_user_def owner_flags_def
      split: sum.splits)

lemma register_v2_flags:
  "owner_flags (snd (register_v2 ev s e p)) = owner_flags s
   \<or> owner_flags (snd (register_v2 ev s e p)) = owner_flags s @ [(next_id s, False)]"
  by (auto simp: register_v2_def split: option.splits sum.splits dest: create_hashing_flags)

lemma toggle_admin_v1_flags:
  "owner_flags (snd (toggle_admin_v1 ev s hdr target)) = owner_flags s"
  by (auto simp: toggle_admin_v1_def owner_flags_def Let_def save_user_flags findById_oid
      split: option.splits sum.splits)

lemma toggle_admin_v2_flags:
  "owner_flags (snd (toggle_admin_v2 ev s hdr target)) = owner_flags s"
  by (auto simp: toggle_admin_v2_def owner_flags_def Let_def save_user_flags findById_oid
      split: option.splits sum.splits)

lemma put_profile_flags:
  "owner_flags (snd (put_profile ev s hdr nm b)) = owner_flags s"
  by (auto simp: put_profile_def owner_flags_def save_user_flags findById_oid
      split: option.splits sum.splits)

lemma generate_chapters_flags:
  "owner_flags (snd (generate_chapters ev s now hdr tr fmt)) = owner_flags s"
  by (simp add: generate_chapters_def owner_flags_def split: option.splits sum.splits)

lemma delete_transcript_flags:
  "owner_flags (snd (delete_transcript ev s hdr target)) = owner_flags s"
  by (simp add: delete_transcript_def owner_flags_def split: option.splits sum.splits)

lemma delete_history_flags:
  "owner_flags (snd (delete_history ev s hdr target)) = owner_flags s"
  by (simp add: delete_history_def owner_flags_def split: option.splits sum.splits)

lemma handle_v1_flags:
  "owner_flags (snd (handle_v1 ev s req)) = owner_flags s
   \<or> owner_flags (snd (handle_v1 ev s req)) = owner_flags s @ [(next_id s, False)]"
  by (cases req) (simp_all add: register_v1_flags toggle_admin_v1_flags generate_chapters_flags)

lemma handle_v2_flags:
  "owner_flags (snd (handle_v2 ev s req)) = owner_flags s
   \<or> owner_flags (snd (handle_v2 ev s req)) = owner_flags s @ [(next_id s, False)]"
  by (cases req)
    (simp_all add: register_v2_flags toggle_admin_v2_flags generate_chapters_flags
      put_profile_flags delete_transcript_flags delete_history_flags)

lemma flags_keep_account:
  assumes "owner_flags s' = owner_flags s \<or> owner_flags s' = owner_flags s @ new"
      and "findById i (users s) = Some u"
  shows "\<exists>u'. findById i (users s') = Some u' \<and> isOwner u' = isOwner u"
proof -
  from assms(1) obtain r where "owner_flags s' = owner_flags s @ r" by auto
  then show ?thesis using assms(2) unfolding owner_flags_def by (rule findById_flags)
qed

text \<open>
  C5. Whatever request either variant handles (registration, login, generation, the
  listings, the role toggle, the deletions of transcripts, the profile routes), the
  stored accounts keep their ids and their \<^verbatim>\<open>isOwner\<close> flags, in order; at most one
  account is appended, the registered one, which is no owner. So an account found under
  an id before the request is found under it afterwards with the same \<^verbatim>\<open>isOwner\<close>.
\<close>

theorem no_operation_mutates_isOwner:
  "(owner_flags (snd (handle_v2 ev s req)) = owner_flags s
      \<or> owner_flags (snd (handle_v2 ev s req)) = owner_flags s @ [(next_id s, False)])
   \<and> (owner_flags (snd (handle_v1 ev s req)) = owner_flags s
      \<or> owner_flags (snd (handle_v1 ev s req)) = owner_flags s @ [(next_id s, False)])
   \<and> (findById i (users s) = Some u \<longrightarrow>
        (\<exists>u'. findById i (users (snd (handle_v2 ev s req))) = Some u' \<and> isOwner u' = isOwner u)
      \<and> (\<exists>u'. findById i (users (snd (handle_v1 ev s req))) = Some u' \<and> isOwner u' = isOwner u))"
  using handle_v1_flags [of ev s req] handle_v2_flags [of ev s req]
    flags_keep_account [OF handle_v1_flags] flags_keep_account [OF handle_v2_flags]
  by blast

text \<open>
  The sample owner edits its profile and is still the owner.
\<close>

theorem no_operation_mutates_isOwner_witness:
  "findById 101 (users sample_db) = Some sample_owner
   \<and> (\<exists>u'. findById 101 (users (snd (handle_v2 sample_env sample_db
          (PutProfile (Some (token_for sample_owner)) (Some ''Ada'') None)))) = Some u'
        \<and> isOwner u' = isOwner sample_owner)"
  using no_operation_mutates_isOwner [of sample_env sample_db
      "PutProfile (Some (token_for sample_owner)) (Some ''Ada'') None" 101 sample_owner]
    sample_find(1)
  by blast

section \<open>What the toggle sends back\<close>






section \<open>The length test of the title route\<close>

lemma length_trim_le: "length (trim t) \<le> length t"
proof -
  have "length (trim t) \<le> length (dropWhile is_js_whitespace t)"
    unfolding trim_def using length_dropWhile_le [of is_js_whitespace "rev (dropWhile is_js_whitespace t)"]
    by simp
  also have "\<dots> \<le> length t" by (rule length_dropWhile_le)
  finally show ?thesis .
qed

lemma trim_unpadded:
  assumes "t \<noteq> []" "\<not> is_js_whitespace (hd t)" "\<not> is_js_whitespace (last t)"
  shows "trim t = t"
proof -
  have a: "dropWhile is_js_whitespace t = t"
    using assms(1,2) by (cases t) auto
  have "rev t \<noteq> []" "\<not> is_js_whitespace (hd (rev t))"
    using assms(1,3) by (simp_all add: hd_rev)
  then have b: "dropWhile is_js_whitespace (rev t) = rev t"
    by (cases "rev t") auto
  show ?thesis by (simp add: trim_def a b)
qed

text \<open>
  C9, as the code has it. For an authenticated request to \<^verbatim>\<open>POST /api/generate-titles\<close>,
  a missing transcript, a transcript of fewer than 20 code units, and a transcript with
  fewer than 20 code units left after \<^verbatim>\<open>trim()\<close>, is answered 400. A transcript with 20 or more left is sent to the
  completion service with the fixed prompt, and answered 200 with the titles when the
  service answers and 500 when it fails. Trimming never lengthens, and leaves a
  transcript that neither starts nor ends with white space as it is: for those the
  boundary is at 20 code units of the transcript as supplied.
\<close>

theorem generate_titles_boundary:
  assumes "requireAuth ev hdr = Inr c"
  shows "generate_titles ev hdr None =
           respond 400 (ErrorBody ''Transcript is too short or missing.'')
       \<and> (length t < 20 \<or> length (trim t) < 20 \<longrightarrow>
            generate_titles ev hdr (Some t) =
              respond 400 (ErrorBody ''Transcript is too short or missing.''))
       \<and> (20 \<le> length (trim t) \<longrightarrow>
            generate_titles ev hdr (Some t) =
              (case openai_chat ev titles_prompt (js ''Transcript:'' @ [0x0A] @ t) of
                 Inl m \<Rightarrow> respond 500 (ErrorBody ''Failed to generate titles'')
               | Inr titles \<Rightarrow> respond 200 (TitlesBody titles)))
       \<and> length (trim t) \<le> length t
       \<and> (t \<noteq> [] \<and> \<not> is_js_whitespace (hd t) \<and> \<not> is_js_whitespace (last t) \<longrightarrow> trim t = t)"
proof -
  have short: "length t < 20 \<or> length (trim t) < 20 \<longrightarrow>
            generate_titles ev hdr (Some t) =
              respond 400 (ErrorBody ''Transcript is too short or missing.'')"
    using assms length_trim_le [of t] by (auto simp: generate_titles_def)
  have long: "20 \<le> length (trim t) \<longrightarrow>
            generate_titles ev hdr (Some t) =
              (case openai_chat ev titles_prompt (js ''Transcript:'' @ [0x0A] @ t) of
                 Inl m \<Rightarrow> respond 500 (ErrorBody ''Failed to generate titles'')
               | Inr titles \<Rightarrow> respond 200 (TitlesBody titles))"
  proof
    assume l: "20 \<le> length (trim t)"
    then have "t \<noteq> []" using length_trim_le [of t] by auto
    then show "generate_titles ev hdr (Some t) =
              (case openai_chat ev titles_prompt (js ''Transcript:'' @ [0x0A] @ t) of
                 Inl m \<Rightarrow> respond 500 (ErrorBody ''Failed to generate titles'')
               | Inr titles \<Rightarrow> respond 200 (TitlesBody titles))"
      using assms l by (simp add: generate_titles_def)
  qed
  have none: "generate_titles ev hdr None =
           respond 400 (ErrorBody ''Transcript is too short or missing.'')"
    using assms by (simp add: generate_titles_def)
  show ?thesis using none short long length_trim_le trim_unpadded by blast
qed

lemma js_eval: "js ''Welcome to the show'' =
  [0x57, 0x65, 0x6C, 0x63, 0x6F, 0x6D, 0x65, 0x20, 0x74, 0x6F, 0x20, 0x74, 0x68, 0x65, 0x20,
   0x73, 0x68, 0x6F, 0x77]"
  by (simp add: js_def)

lemma ws_eval: "is_js_whitespace 0x0A" "is_js_whitespace 0x20" "\<not> is_js_whitespace 0x77"
  "\<not> is_js_whitespace 0x57" "\<not> is_js_whitespace 0x21"
  by (simp_all add: is_js_whitespace_def)

lemma trim_eval: "trim (js ''Welcome to the show'' @ [0x0A]) = js ''Welcome to the show''"
  by (simp add: trim_def js_eval ws_eval)

text \<open>
  Twenty code units without white space at either end pass; nineteen do not.
\<close>

theorem generate_titles_boundary_witness:
  "generate_titles sample_env (Some (token_for sample_plain))
       (Some (js ''Welcome to the show'' @ [0x21])) =
     respond 200 (TitlesBody (js ''Transcript:'' @ [0x0A] @ js ''Welcome to the show'' @ [0x21]))
   \<and> generate_titles sample_env (Some (token_for sample_plain)) (Some (js ''Welcome to the show'')) =
     respond 400 (ErrorBody ''Transcript is too short or missing.'')"
proof -
  note t = generate_titles_boundary [OF requireAuth_sample, of sample_plain]
  have u: "trim (js ''Welcome to the show'' @ [0x21]) = js ''Welcome to the show'' @ [0x21]"
    by (rule trim_unpadded) (simp_all add: js_eval ws_eval)
  have v: "trim (js ''Welcome to the show'') = js ''Welcome to the show''"
    by (rule trim_unpadded) (simp_all add: js_eval ws_eval)
  have l: "length (js ''Welcome to the show'') = 19" by (simp add: js_def)
  have o: "openai_chat sample_env sys usr = Inr usr" for sys usr by (simp add: sample_env_def)
  show ?thesis
    using t [of "js ''Welcome to the show'' @ [0x21]"] t [of "js ''Welcome to the show''"]
    by (simp add: u v l o)
qed

text \<open>
  Twenty code units that end in a line feed: nineteen are left after trimming, and the
  request is answered 400.
\<close>

theorem generate_titles_trailing_newline:
  "length (js ''Welcome to the show'' @ [0x0A]) = 20
   \<and> requireAuth sample_env (Some (token_for sample_plain)) =
       Inr \<lparr>c_userId = 103, c_isAdmin = False, c_isOwner = Some False\<rparr>
   \<and> generate_titles sample_env (Some (token_for sample_plain))
       (Some (js ''Welcome to the show'' @ [0x0A])) =
       respond 400 (ErrorBody ''Transcript is too short or missing.'')"
  by (simp add: generate_titles_def requireAuth_sample sample_fields trim_eval)
     (simp add: js_eval)

end
